theory Spec2Isabelle
  imports Main
begin

section \<open>Data model\<close>

subsection \<open>Expressions\<close>

text \<open>
  Modelled from the spec: the expression grammar (\<^verbatim>\<open>QuintEx\<close> of \<^verbatim>\<open>quintIr\<close>) is not among
  the sources. The spec describes opaque AST nodes carrying a \<^verbatim>\<open>kind\<close> discriminant and a
  literal \<^verbatim>\<open>value\<close>: at minimum \<^verbatim>\<open>str\<close> with a string value and \<^verbatim>\<open>int\<close> with an
  arbitrary-precision integer value. Every other node is kept opaque: its kind tag and a
  number standing for the rest of its content.
\<close>

datatype OtherKind = KName | KBool | KApp | KLambda | KLet

datatype QuintEx =
    QuintStr string
  | QuintInt int
  | QuintOther OtherKind nat

fun otherKindName :: "OtherKind \<Rightarrow> string" where
  "otherKindName KName = ''name''"
| "otherKindName KBool = ''bool''"
| "otherKindName KApp = ''app''"
| "otherKindName KLambda = ''lambda''"
| "otherKindName KLet = ''let''"

text \<open>The \<^verbatim>\<open>kind\<close> field of an expression node.\<close>

fun kind :: "QuintEx \<Rightarrow> string" where
  "kind (QuintStr v) = ''str''"
| "kind (QuintInt v) = ''int''"
| "kind (QuintOther k r) = otherKindName k"

subsection \<open>Types, rows and constraints\<close>

text \<open>
  Modelled from the spec: the type grammar (\<^verbatim>\<open>QuintType\<close>, \<^verbatim>\<open>Row\<close> of \<^verbatim>\<open>quintTypes\<close>) is not
  among the sources. The constructors are the kinds that \<^verbatim>\<open>specialConstraints.ts\<close> builds
  (\<^verbatim>\<open>var\<close>, \<^verbatim>\<open>rec\<close>, \<^verbatim>\<open>tup\<close>, \<^verbatim>\<open>set\<close>, \<^verbatim>\<open>str\<close>; rows \<^verbatim>\<open>row\<close>, \<^verbatim>\<open>var\<close>, \<^verbatim>\<open>empty\<close>) and the
  primitive scalars the spec names. A row field is the object
  \<^verbatim>\<open>{ fieldName, fieldType }\<close>; the tail of a row is its \<^verbatim>\<open>other\<close> component.
\<close>

datatype QuintType =
    BoolT
  | IntT
  | StrT
  | VarT string
  | SetT QuintType
  | RecT Row
  | TupT Row
and Row =
    RowFields "RowField list" Row
  | RowVar string
  | RowEmpty
and RowField =
    RowField (fieldName: string) (fieldType: QuintType)

text \<open>\<^verbatim>\<open>QuintVarType\<close>: the object \<^verbatim>\<open>{ kind: 'var', name }\<close>, a \<^verbatim>\<open>QuintType\<close> by subtyping.\<close>

datatype QuintVarType = QuintVarType (name: string)

definition varType :: "QuintVarType \<Rightarrow> QuintType" where
  "varType v = VarT (name v)"

text \<open>
  Modelled from the spec: the constraint grammar (\<^verbatim>\<open>Constraint\<close> of \<^verbatim>\<open>base\<close>) is not among the
  sources: equality of two types with the source id, conjunction, and the empty constraint.
\<close>

datatype Constraint =
    Eq QuintType QuintType int
  | Conjunction "Constraint list"
  | EmptyConstraint

subsection \<open>Errors and results\<close>

text \<open>
  Modelled from the spec: the error utility (\<^verbatim>\<open>errorTree\<close>) is not among the sources. It
  produces a structured leaf error from a context string and a message string. An
  \<^verbatim>\<open>Error\<close> is one such tree or an array of them.
\<close>

datatype ErrorTree =
  ErrorTree (location: string) (message: "string option") (children: "ErrorTree list")

datatype Error =
    OneError ErrorTree
  | ManyErrors "ErrorTree list"

definition buildErrorLeaf :: "string \<Rightarrow> string \<Rightarrow> ErrorTree" where
  "buildErrorLeaf loc msg = ErrorTree loc (Some msg) []"

text \<open>
  A call throws a JavaScript exception, or aborts the process because the runtime cannot
  allocate an array (a fatal error that no handler catches), or returns a value. The
  returned value is an \<^verbatim>\<open>Either\<close>: \<open>Inl\<close> is \<^verbatim>\<open>left\<close>, \<open>Inr\<close> is \<^verbatim>\<open>right\<close>.
\<close>

datatype JsError = TypeError | RangeError

datatype 'a Completion = Throw JsError | Abort | Return 'a

type_synonym Result = "(Error + Constraint list) Completion"

section \<open>Library functions used by the module\<close>

subsection \<open>Strings\<close>

text \<open>
  \<^verbatim>\<open>`${i}`\<close> for a non-negative integral number below \<open>2^32\<close> and for a bigint: the decimal
  digits, with a leading minus sign for a negative bigint.
\<close>

definition digitChar :: "nat \<Rightarrow> char" where
  "digitChar d = (''0123456789'' ! d)"

function numberToString :: "nat \<Rightarrow> string" where
  "numberToString n =
     (if n < 10 then [digitChar n]
      else numberToString (n div 10) @ [digitChar (n mod 10)])"
  by pat_completeness auto
termination
  by (relation "measure id") auto

declare numberToString.simps [simp del]

definition bigintToString :: "int \<Rightarrow> string" where
  "bigintToString i =
     (if i < 0 then CHR ''-'' # numberToString (nat (- i)) else numberToString (nat i))"

text \<open>
  \<^verbatim>\<open>`${array}`\<close> is \<^verbatim>\<open>array.join(',')\<close>.
\<close>

fun joinComma :: "string list \<Rightarrow> string" where
  "joinComma [] = []"
| "joinComma [s] = s"
| "joinComma (s # t # ss) = s @ '','' @ joinComma (t # ss)"

subsection \<open>lodash: \<^verbatim>\<open>chunk\<close> and \<^verbatim>\<open>times\<close>\<close>

text \<open>
  \<^verbatim>\<open>chunk(array, size)\<close>: slices of \<^verbatim>\<open>size\<close> elements in order, the last one shorter when the
  length is not a multiple of \<^verbatim>\<open>size\<close>; the empty list for an empty array or a size below 1.
\<close>

function chunk :: "'a list \<Rightarrow> nat \<Rightarrow> 'a list list" where
  "chunk xs sz =
     (if xs = [] \<or> sz < 1 then []
      else take sz xs # chunk (drop sz xs) sz)"
  by pat_completeness auto
termination
  by (relation "measure (\<lambda>(xs, sz). length xs)") auto

declare chunk.simps [simp del]

definition MAX_SAFE_INTEGER :: int where
  "MAX_SAFE_INTEGER = 9007199254740991"

definition MAX_ARRAY_LENGTH :: nat where
  "MAX_ARRAY_LENGTH = 4294967295"

text \<open>
  \<^verbatim>\<open>times(Number(v))\<close> for a bigint \<open>v\<close>, with the default iteratee (the identity). lodash:
  \<^verbatim>\<open>n = toInteger(n); if (n < 1 || n > MAX_SAFE_INTEGER) return [];\<close> and otherwise the
  result has \<^verbatim>\<open>min(n, MAX_ARRAY_LENGTH)\<close> entries \<open>0, 1, ...\<close>. \<^verbatim>\<open>Number\<close> is exact up to
  \<open>2^53\<close> in absolute value and monotone beyond, so both comparisons give for \<^verbatim>\<open>Number(v)\<close>
  what they give for \<open>v\<close>.

  The result array is allocated from the number alone, and the runtime has the memory for it
  or not. That memory is not in the source: it is the parameter \<open>heapLimit\<close>, the largest
  number of entries for which the runtime can build the array. With more entries the process
  aborts during the allocation.
\<close>

definition times :: "nat \<Rightarrow> int \<Rightarrow> nat list Completion" where
  "times heapLimit v =
     (if v < 1 \<or> v > MAX_SAFE_INTEGER then Return []
      else if heapLimit < min (nat v) MAX_ARRAY_LENGTH then Abort
      else Return [0..<min (nat v) MAX_ARRAY_LENGTH])"

text \<open>
  \<^verbatim>\<open>Array.prototype.push\<close> of one element: the length of an array is at most \<open>2^32 - 1\<close>, and
  setting it beyond throws a \<^verbatim>\<open>RangeError\<close>.
\<close>

definition push :: "'a list \<Rightarrow> 'a \<Rightarrow> 'a list Completion" where
  "push xs x = (if length xs < MAX_ARRAY_LENGTH then Return (xs @ [x]) else Throw RangeError)"

text \<open>\<^verbatim>\<open>Array.prototype.map\<close> with a callback that may throw: the first exception escapes.\<close>

fun mapThrowing :: "('a \<Rightarrow> 'b Completion) \<Rightarrow> 'a list \<Rightarrow> 'b list Completion" where
  "mapThrowing f [] = Return []"
| "mapThrowing f (x # xs) =
     (case f x of
        Throw e \<Rightarrow> Throw e
      | Abort \<Rightarrow> Abort
      | Return y \<Rightarrow>
          (case mapThrowing f xs of
             Throw e \<Rightarrow> Throw e
           | Abort \<Rightarrow> Abort
           | Return ys \<Rightarrow> Return (y # ys)))"

subsection \<open>sweet-monads: \<^verbatim>\<open>mergeInMany\<close>\<close>

text \<open>
  \<^verbatim>\<open>mergeInMany(eithers)\<close> reduces the array from \<^verbatim>\<open>right([])\<close>: while no \<^verbatim>\<open>left\<close> has been seen
  it appends the \<^verbatim>\<open>right\<close> values; the first \<^verbatim>\<open>left\<close> starts an array of left values, and every
  later \<^verbatim>\<open>left\<close> is appended to it. The result is the \<^verbatim>\<open>right\<close> of all values, or the \<^verbatim>\<open>left\<close> of
  all left values.
\<close>

fun mergeStep :: "'l list + 'r list \<Rightarrow> 'l + 'r \<Rightarrow> 'l list + 'r list" where
  "mergeStep (Inl es) (Inl e) = Inl (es @ [e])"
| "mergeStep (Inl es) (Inr v) = Inl es"
| "mergeStep (Inr vs) (Inl e) = Inl [e]"
| "mergeStep (Inr vs) (Inr v) = Inr (vs @ [v])"

definition mergeInMany :: "('l + 'r) list \<Rightarrow> 'l list + 'r list" where
  "mergeInMany eithers = foldl mergeStep (Inr []) eithers"

section \<open>The constraint generator\<close>

text \<open>
  \<^verbatim>\<open>expressionToString\<close> (of \<^verbatim>\<open>IRprinting\<close>) is not among the sources: every function below
  takes it as its first parameter \<open>ets\<close>. The functions that reach \<^verbatim>\<open>times\<close> take the memory of
  the runtime, \<open>heapLimit\<close>, as their second parameter.
\<close>

type_synonym Arg = "QuintEx \<times> QuintType"

definition errorLocation :: "(QuintEx \<Rightarrow> string) \<Rightarrow> Arg list \<Rightarrow> string" where
  "errorLocation ets args =
     ''Generating record constraints for '' @ joinComma (map (\<lambda>a. ets (fst a)) args)"

subsection \<open>\<^verbatim>\<open>recordConstructorConstraints\<close>\<close>

definition recordKeyError :: "(QuintEx \<Rightarrow> string) \<Rightarrow> Arg list \<Rightarrow> QuintEx \<Rightarrow> ErrorTree" where
  "recordKeyError ets args key =
     buildErrorLeaf (errorLocation ets args)
       (''Record field name must be a name expression but is '' @ kind key @ '': '' @ ets key)"

text \<open>
  The callback of \<^verbatim>\<open>chunk(args, 2).map\<close>. Its parameter pattern
  \<^verbatim>\<open>[[key, _keyType], [_value, valueType]]\<close> throws a \<^verbatim>\<open>TypeError\<close> on a chunk with fewer than
  two elements, since \<^verbatim>\<open>undefined\<close> is not iterable.
\<close>

definition recordField ::
  "(QuintEx \<Rightarrow> string) \<Rightarrow> Arg list \<Rightarrow> Arg list \<Rightarrow> (ErrorTree + RowField) Completion" where
  "recordField ets args c =
     (case c of
        (key, keyType) # (val, valueType) # rest \<Rightarrow>
          (case key of
             QuintStr v \<Rightarrow> Return (Inr (RowField v valueType))
           | QuintInt v \<Rightarrow> Return (Inl (recordKeyError ets args key))
           | QuintOther k r \<Rightarrow> Return (Inl (recordKeyError ets args key)))
      | [a] \<Rightarrow> Throw TypeError
      | [] \<Rightarrow> Throw TypeError)"

definition recordConstructorConstraints ::
  "(QuintEx \<Rightarrow> string) \<Rightarrow> int \<Rightarrow> Arg list \<Rightarrow> QuintVarType \<Rightarrow> Result" where
  "recordConstructorConstraints ets nid args resultTypeVar =
     (case mapThrowing (recordField ets args) (chunk args 2) of
        Throw e \<Rightarrow> Throw e
      | Abort \<Rightarrow> Abort
      | Return fields \<Rightarrow>
          (case mergeInMany fields of
             Inl errs \<Rightarrow> Return (Inl (ManyErrors errs))
           | Inr fs \<Rightarrow>
               Return (Inr [Eq (RecT (RowFields fs RowEmpty)) (varType resultTypeVar) nid])))"

subsection \<open>\<^verbatim>\<open>fieldConstraints\<close>, \<^verbatim>\<open>fieldNamesConstraints\<close>, \<^verbatim>\<open>withConstraints\<close>\<close>

definition fieldNameError :: "(QuintEx \<Rightarrow> string) \<Rightarrow> Arg list \<Rightarrow> QuintEx \<Rightarrow> ErrorTree" where
  "fieldNameError ets args fieldNameExpr =
     buildErrorLeaf (errorLocation ets args)
       (''Record field name must be a string expression but is '' @ kind fieldNameExpr @ '': ''
          @ ets fieldNameExpr)"

definition fieldConstraints ::
  "(QuintEx \<Rightarrow> string) \<Rightarrow> int \<Rightarrow> Arg list \<Rightarrow> QuintVarType \<Rightarrow> Result" where
  "fieldConstraints ets nid args resultTypeVar =
     (case args of
        (rec, recType) # (fieldNameExpr, fieldNameType) # rest \<Rightarrow>
          (case fieldNameExpr of
             QuintStr v \<Rightarrow>
               Return (Inr [Eq recType
                 (RecT (RowFields [RowField v (varType resultTypeVar)]
                    (RowVar (''tail_'' @ name resultTypeVar)))) nid])
           | QuintInt v \<Rightarrow> Return (Inl (OneError (fieldNameError ets args fieldNameExpr)))
           | QuintOther k r \<Rightarrow> Return (Inl (OneError (fieldNameError ets args fieldNameExpr))))
      | [a] \<Rightarrow> Throw TypeError
      | [] \<Rightarrow> Throw TypeError)"

definition fieldNamesConstraints ::
  "(QuintEx \<Rightarrow> string) \<Rightarrow> int \<Rightarrow> Arg list \<Rightarrow> QuintVarType \<Rightarrow> Result" where
  "fieldNamesConstraints ets nid args resultTypeVar =
     (case args of
        (rec, recType) # rest \<Rightarrow>
          Return (Inr [Eq (varType resultTypeVar) (SetT StrT) nid,
                       Eq recType (RecT (RowVar (''rec_'' @ name resultTypeVar))) nid])
      | [] \<Rightarrow> Throw TypeError)"

definition withConstraints ::
  "(QuintEx \<Rightarrow> string) \<Rightarrow> int \<Rightarrow> Arg list \<Rightarrow> QuintVarType \<Rightarrow> Result" where
  "withConstraints ets nid args resultTypeVar =
     (case args of
        (rec, recType) # (fieldNameExpr, fieldNameType) # (val, valueType) # rest \<Rightarrow>
          (case fieldNameExpr of
             QuintStr v \<Rightarrow>
               (let generalRecType =
                      RecT (RowFields [RowField v valueType]
                        (RowVar (''tail_'' @ name resultTypeVar)))
                in Return (Inr [Eq recType generalRecType nid,
                                Eq (varType resultTypeVar) generalRecType nid]))
           | QuintInt v \<Rightarrow> Return (Inl (OneError (fieldNameError ets args fieldNameExpr)))
           | QuintOther k r \<Rightarrow> Return (Inl (OneError (fieldNameError ets args fieldNameExpr))))
      | [a, b] \<Rightarrow> Throw TypeError
      | [a] \<Rightarrow> Throw TypeError
      | [] \<Rightarrow> Throw TypeError)"

subsection \<open>\<^verbatim>\<open>tupleConstructorConstraints\<close>, \<^verbatim>\<open>itemConstraints\<close>\<close>

definition tupleConstructorConstraints ::
  "(QuintEx \<Rightarrow> string) \<Rightarrow> int \<Rightarrow> Arg list \<Rightarrow> QuintVarType \<Rightarrow> Result" where
  "tupleConstructorConstraints ets nid args resultTypeVar =
     (let fields = map (\<lambda>(i, a). RowField (numberToString i) (snd a)) (enumerate 0 args)
      in Return (Inr [Eq (TupT (RowFields fields RowEmpty)) (varType resultTypeVar) nid]))"

definition itemIndexError :: "(QuintEx \<Rightarrow> string) \<Rightarrow> Arg list \<Rightarrow> QuintEx \<Rightarrow> ErrorTree" where
  "itemIndexError ets args itemName =
     buildErrorLeaf (errorLocation ets args)
       (''Tup field index must be an int expression but is '' @ kind itemName @ '': ''
          @ ets itemName)"

definition placeholderField :: "QuintVarType \<Rightarrow> nat \<Rightarrow> RowField" where
  "placeholderField resultTypeVar i =
     RowField (numberToString i)
       (VarT (''tup_'' @ name resultTypeVar @ ''_'' @ numberToString i))"

definition itemFields :: "nat \<Rightarrow> QuintVarType \<Rightarrow> int \<Rightarrow> RowField list Completion" where
  "itemFields heapLimit resultTypeVar v =
     (case times heapLimit (v - 1) of
        Throw e \<Rightarrow> Throw e
      | Abort \<Rightarrow> Abort
      | Return indices \<Rightarrow>
          push (map (placeholderField resultTypeVar) indices)
            (RowField (bigintToString (v - 1)) (varType resultTypeVar)))"

definition itemConstraints ::
  "(QuintEx \<Rightarrow> string) \<Rightarrow> nat \<Rightarrow> int \<Rightarrow> Arg list \<Rightarrow> QuintVarType \<Rightarrow> Result" where
  "itemConstraints ets heapLimit nid args resultTypeVar =
     (case args of
        (tup, tupType) # (itemName, itemNameType) # rest \<Rightarrow>
          (case itemName of
             QuintInt v \<Rightarrow>
               (case itemFields heapLimit resultTypeVar v of
                  Throw e \<Rightarrow> Throw e
                | Abort \<Rightarrow> Abort
                | Return fields \<Rightarrow>
                    Return (Inr [Eq tupType
                      (TupT (RowFields fields (RowVar (''tail_'' @ name resultTypeVar)))) nid]))
           | QuintStr v \<Rightarrow> Return (Inl (OneError (itemIndexError ets args itemName)))
           | QuintOther k r \<Rightarrow> Return (Inl (OneError (itemIndexError ets args itemName))))
      | [a] \<Rightarrow> Throw TypeError
      | [] \<Rightarrow> Throw TypeError)"

subsection \<open>\<^verbatim>\<open>specialConstraints\<close>\<close>

definition specialConstraints ::
  "(QuintEx \<Rightarrow> string) \<Rightarrow> nat \<Rightarrow> string \<Rightarrow> int \<Rightarrow> Arg list \<Rightarrow> QuintVarType \<Rightarrow> Result"
  where
  "specialConstraints ets heapLimit opcode nid args resultTypeVar =
     (if opcode = ''Rec'' then recordConstructorConstraints ets nid args resultTypeVar
      else if opcode = ''field'' then fieldConstraints ets nid args resultTypeVar
      else if opcode = ''fieldNames'' then fieldNamesConstraints ets nid args resultTypeVar
      else if opcode = ''with'' then withConstraints ets nid args resultTypeVar
      else if opcode = ''Tup'' then tupleConstructorConstraints ets nid args resultTypeVar
      else if opcode = ''item'' then itemConstraints ets heapLimit nid args resultTypeVar
      else Return (Inr []))"

text \<open>
  A printer of expressions for evaluating the generator on concrete calls: a string in
  double quotes, an integer in decimal, any other node by its kind and number.
\<close>

fun printEx :: "QuintEx \<Rightarrow> string" where
  "printEx (QuintStr v) = ''\"'' @ v @ ''\"''"
| "printEx (QuintInt v) = bigintToString v"
| "printEx (QuintOther k r) = otherKindName k @ ''_'' @ numberToString r"

subsection \<open>Calls on which the generator returns\<close>

text \<open>
  The calls of correct arity: the destructuring patterns of a rule need their elements (an
  even number for \<^verbatim>\<open>Rec\<close>, whose chunks are destructured as pairs). For \<^verbatim>\<open>item\<close> with an
  integer literal \<open>N\<close>, the \<open>N - 1\<close> placeholders must be within the memory of the runtime and
  leave room in the array for the pushed field.
\<close>

definition placeholdersFit :: "nat \<Rightarrow> QuintEx \<Rightarrow> bool" where
  "placeholdersFit heapLimit e =
     (case e of
        QuintInt v \<Rightarrow> v - 1 \<le> int heapLimit \<and> v - 1 < int MAX_ARRAY_LENGTH
      | QuintStr v \<Rightarrow> True
      | QuintOther k r \<Rightarrow> True)"

definition wellFormedCall :: "nat \<Rightarrow> string \<Rightarrow> Arg list \<Rightarrow> bool" where
  "wellFormedCall heapLimit opcode args =
     (if opcode = ''Rec'' then even (length args)
      else if opcode = ''field'' then 2 \<le> length args
      else if opcode = ''fieldNames'' then 1 \<le> length args
      else if opcode = ''with'' then 3 \<le> length args
      else if opcode = ''Tup'' then True
      else if opcode = ''item'' then
        (case args of
           a # (itemName, itemNameType) # rest \<Rightarrow> placeholdersFit heapLimit itemName
         | [a] \<Rightarrow> False
         | [] \<Rightarrow> False)
      else True)"


section \<open>Properties\<close>

subsection \<open>Library functions\<close>

lemma chunk_two_Nil: "chunk [] 2 = []"
  by (simp add: chunk.simps)

lemma chunk_two_single: "chunk [a] 2 = [[a]]"
  by (simp add: chunk.simps)

lemma chunk_two_Cons: "chunk (a # b # xs) 2 = [a, b] # chunk xs 2"
  by (subst chunk.simps) (simp add: numeral_2_eq_2)

lemma foldl_mergeStep_Inl:
  "foldl mergeStep (Inl es) xs = Inl (es @ map projl (filter isl xs))"
proof (induction xs arbitrary: es)
  case Nil
  show ?case by simp
next
  case (Cons x xs)
  show ?case by (cases x) (simp_all add: Cons.IH)
qed

lemma foldl_mergeStep_Inr:
  "foldl mergeStep (Inr vs) xs =
     (if filter isl xs = [] then Inr (vs @ map projr xs) else Inl (map projl (filter isl xs)))"
proof (induction xs arbitrary: vs)
  case Nil
  show ?case by simp
next
  case (Cons x xs)
  show ?case by (cases x) (simp_all add: Cons.IH foldl_mergeStep_Inl)
qed

text \<open>
  \<^verbatim>\<open>mergeInMany\<close> is the \<^verbatim>\<open>right\<close> of all values when there is no \<^verbatim>\<open>left\<close>, and otherwise the
  \<^verbatim>\<open>left\<close> of all left values, in order.
\<close>

lemma mergeInMany_eq:
  "mergeInMany xs =
     (if filter isl xs = [] then Inr (map projr xs) else Inl (map projl (filter isl xs)))"
  by (simp add: mergeInMany_def foldl_mergeStep_Inr)

subsection \<open>Record construction on an even-length argument list\<close>

lemma recordField_pair:
  "recordField ets A [(k, kt), (v, vt)] =
     Return (case k of QuintStr s \<Rightarrow> Inr (RowField s vt)
             | QuintInt i \<Rightarrow> Inl (recordKeyError ets A k)
             | QuintOther c r \<Rightarrow> Inl (recordKeyError ets A k))"
  by (cases k) (simp_all add: recordField_def)

lemma recordFields_even:
  "mapThrowing (recordField ets A)
     (chunk (concat (map (\<lambda>(k, kt, v, vt). [(k, kt), (v, vt)]) kvs)) 2)
   = Return (map (\<lambda>(k, kt, v, vt). case k of QuintStr s \<Rightarrow> Inr (RowField s vt)
             | QuintInt i \<Rightarrow> Inl (recordKeyError ets A k)
             | QuintOther c r \<Rightarrow> Inl (recordKeyError ets A k)) kvs)"
proof (induction kvs)
  case Nil
  show ?case by (simp add: chunk_two_Nil)
next
  case (Cons q kvs)
  obtain k kt v vt where q: "q = (k, kt, v, vt)" by (cases q) auto
  show ?case using Cons.IH by (simp add: q chunk_two_Cons recordField_pair)
qed

lemma kind_str_iff: "kind k = ''str'' \<longleftrightarrow> (\<exists>s. k = QuintStr s)"
proof (cases k)
  case (QuintOther c r)
  then show ?thesis by (cases c) simp_all
qed simp_all

lemma recordErrors_filter:
  "map projl (filter isl (map (\<lambda>(k, kt, v, vt). case k of QuintStr s \<Rightarrow> Inr (RowField s vt)
             | QuintInt i \<Rightarrow> Inl (recordKeyError ets A k)
             | QuintOther c r \<Rightarrow> Inl (recordKeyError ets A k)) kvs))
   = map (recordKeyError ets A) (filter (\<lambda>k. kind k \<noteq> ''str'') (map fst kvs))"
proof (induction kvs)
  case Nil
  show ?case by simp
next
  case (Cons q kvs)
  obtain k kt v vt where q: "q = (k, kt, v, vt)" by (cases q) auto
  show ?case using Cons.IH by (cases k) (simp_all add: q kind_str_iff)
qed

subsection \<open>Tuple construction\<close>

lemma map_enumerate_nth:
  "map (\<lambda>(i, a). f i a) (enumerate 0 xs) = map (\<lambda>i. f i (xs ! i)) [0..<length xs]"
  by (rule nth_equalityI) (simp_all add: nth_enumerate_eq)

subsection \<open>When each rule returns\<close>

lemma recordFields_returns_iff:
  "(\<exists>fs. mapThrowing (recordField ets A) (chunk args 2) = Return fs) \<longleftrightarrow> even (length args)"
proof (induction args rule: induct_list012)
  case 1
  show ?case by (simp add: chunk_two_Nil)
next
  case (2 x)
  show ?case by (simp add: chunk_two_single recordField_def)
next
  case (3 x y zs)
  obtain k kt v vt where xy: "x = (k, kt)" "y = (v, vt)" by (cases x, cases y) auto
  show ?case using "3.IH"(1)
    by (auto simp add: xy chunk_two_Cons recordField_pair split: Completion.splits)
qed

lemma Rec_returns_iff:
  "(\<exists>r. recordConstructorConstraints ets nid args X = Return r) \<longleftrightarrow> even (length args)"
proof -
  have "(\<exists>r. recordConstructorConstraints ets nid args X = Return r)
        \<longleftrightarrow> (\<exists>fs. mapThrowing (recordField ets args) (chunk args 2) = Return fs)"
    by (auto simp add: recordConstructorConstraints_def split: Completion.splits sum.splits)
  then show ?thesis by (simp add: recordFields_returns_iff)
qed

lemma field_returns_iff:
  "(\<exists>r. fieldConstraints ets nid args X = Return r) \<longleftrightarrow> 2 \<le> length args"
  by (auto simp add: fieldConstraints_def split: list.splits QuintEx.splits)

lemma fieldNames_returns_iff:
  "(\<exists>r. fieldNamesConstraints ets nid args X = Return r) \<longleftrightarrow> 1 \<le> length args"
  by (auto simp add: fieldNamesConstraints_def split: list.splits)

lemma with_returns_iff:
  "(\<exists>r. withConstraints ets nid args X = Return r) \<longleftrightarrow> 3 \<le> length args"
  by (auto simp add: withConstraints_def Let_def split: list.splits QuintEx.splits)

lemma times_within_memory:
  assumes "1 \<le> v" and "v \<le> int heapLimit" and "v < int MAX_ARRAY_LENGTH"
  shows "times heapLimit v = Return [0..<nat v]"
proof -
  from assms(3) have safe: "\<not> v > MAX_SAFE_INTEGER"
    by (simp add: MAX_ARRAY_LENGTH_def MAX_SAFE_INTEGER_def)
  from assms(1,3) have len: "min (nat v) MAX_ARRAY_LENGTH = nat v"
    by (simp add: min_def)
  from assms(1,2) have fits: "\<not> heapLimit < nat v"
    by simp
  from assms(1) safe fits show ?thesis
    by (simp add: times_def len)
qed

lemma times_no_placeholder:
  assumes "v < 1"
  shows "times heapLimit v = Return []"
  using assms by (simp add: times_def)

lemma itemFields_returns:
  assumes "v - 1 \<le> int heapLimit" and "v - 1 < int MAX_ARRAY_LENGTH"
  shows "\<exists>fs. itemFields heapLimit X v = Return fs"
proof (cases "v - 1 < 1")
  case True
  then show ?thesis
    by (simp add: itemFields_def times_no_placeholder push_def MAX_ARRAY_LENGTH_def)
next
  case False
  then have "1 \<le> v - 1" by simp
  then have t: "times heapLimit (v - 1) = Return [0..<nat (v - 1)]"
    using assms by (rule times_within_memory)
  from assms(2) \<open>1 \<le> v - 1\<close> have "nat (v - 1) < MAX_ARRAY_LENGTH" by simp
  then show ?thesis
    by (simp add: itemFields_def t push_def)
qed

lemma item_returns:
  assumes "case args of
             a # (itemName, itemNameType) # rest \<Rightarrow> placeholdersFit heapLimit itemName
           | [a] \<Rightarrow> False
           | [] \<Rightarrow> False"
  shows "\<exists>r. itemConstraints ets heapLimit nid args X = Return r"
proof -
  from assms obtain t tt e et rest
    where args: "args = (t, tt) # (e, et) # rest" and fit: "placeholdersFit heapLimit e"
    by (auto split: list.splits)
  show ?thesis
  proof (cases e)
    case (QuintInt v)
    with fit have "v - 1 \<le> int heapLimit" and "v - 1 < int MAX_ARRAY_LENGTH"
      by (simp_all add: placeholdersFit_def)
    then obtain fs where "itemFields heapLimit X v = Return fs"
      using itemFields_returns by blast
    then show ?thesis by (simp add: itemConstraints_def args QuintInt)
  qed (simp_all add: itemConstraints_def args)
qed

subsection \<open>The claims\<close>

text \<open>
  C1: a call with opcode \<^verbatim>\<open>with\<close>, the three arguments \<open>(rec, recType)\<close>,
  \<open>(fieldNameExpr, _)\<close>, \<open>(value, valueType)\<close> where \<open>fieldNameExpr\<close> is the string literal
  \<open>f\<close>, and result variable \<open>X\<close>, succeeds with exactly the two constraints
  \<open>Eq(recType, R)\<close> and \<open>Eq(X, R)\<close>, in that order, where \<open>R\<close> is one and the same open record
  row with the single field \<open>(f, valueType)\<close> and the tail variable named \<open>tail_\<close> followed
  by the name of \<open>X\<close>.
\<close>

theorem with_two_constraints_shared_row:
  "specialConstraints ets heapLimit ''with'' nid
     [(rec, recType), (QuintStr f, fieldNameType), (val, valueType)] resultTypeVar
   = Return (Inr [Eq recType
                    (RecT (RowFields [RowField f valueType]
                             (RowVar (''tail_'' @ name resultTypeVar)))) nid,
                  Eq (VarT (name resultTypeVar))
                    (RecT (RowFields [RowField f valueType]
                             (RowVar (''tail_'' @ name resultTypeVar)))) nid])"
  by (simp add: specialConstraints_def withConstraints_def varType_def Let_def)

text \<open>
  C1 at \<^verbatim>\<open>with(r, "x", 1)\<close> with result variable \<open>X\<close>: both constraints hold the row with the
  tail \<open>tail_X\<close>.
\<close>

theorem with_two_constraints_shared_row_witness:
  "specialConstraints printEx 1000 ''with'' 6
     [(QuintOther KName 0, VarT ''r''), (QuintStr ''x'', StrT), (QuintInt 1, IntT)]
     (QuintVarType ''X'')
   = Return (Inr [Eq (VarT ''r'') (RecT (RowFields [RowField ''x'' IntT] (RowVar ''tail_X''))) 6,
                  Eq (VarT ''X'') (RecT (RowFields [RowField ''x'' IntT] (RowVar ''tail_X''))) 6])"
  using with_two_constraints_shared_row
    [of printEx 1000 6 "QuintOther KName 0" "VarT ''r''" "''x''" StrT "QuintInt 1" IntT
        "QuintVarType ''X''"]
  by simp

text \<open>
  C3: a call with opcode \<^verbatim>\<open>Rec\<close> and an even-length argument list of alternating key and
  value arguments in which every key is a string literal succeeds with exactly one
  constraint \<open>Eq(R, X)\<close>, where \<open>R\<close> is the closed record row (tail empty) whose fields are the
  pairs of key literal and value type in the order of the pairs. Nothing is assumed about
  the keys being distinct: duplicates are passed through.
\<close>

theorem Rec_closed_record:
  "specialConstraints ets heapLimit ''Rec'' nid
     (concat (map (\<lambda>(k, kt, v, vt). [(QuintStr k, kt), (v, vt)]) kvs)) resultTypeVar
   = Return (Inr [Eq (RecT (RowFields (map (\<lambda>(k, kt, v, vt). RowField k vt) kvs) RowEmpty))
                    (VarT (name resultTypeVar)) nid])"
proof -
  let ?qs = "map (\<lambda>(k, kt, v, vt). (QuintStr k, kt, v, vt)) kvs"
  have args: "concat (map (\<lambda>(k, kt, v, vt). [(QuintStr k, kt), (v, vt)]) kvs)
              = concat (map (\<lambda>(k, kt, v, vt). [(k, kt), (v, vt)]) ?qs)"
    by (induction kvs) auto
  have fields: "map (\<lambda>(k, kt, v, vt). case k of QuintStr s \<Rightarrow> Inr (RowField s vt)
             | QuintInt i \<Rightarrow> Inl (recordKeyError ets A k)
             | QuintOther c r \<Rightarrow> Inl (recordKeyError ets A k)) ?qs
        = map Inr (map (\<lambda>(k, kt, v, vt). RowField k vt) kvs)" for A
    by (induction kvs) auto
  have merged: "mergeInMany (map (Inr \<circ> f) kvs) = Inr (map f kvs)"
    for f :: "string \<times> QuintType \<times> QuintEx \<times> QuintType \<Rightarrow> RowField"
    by (simp add: mergeInMany_eq comp_def)
  show ?thesis
    unfolding specialConstraints_def recordConstructorConstraints_def args
      recordFields_even fields
    by (simp add: merged varType_def)
qed

text \<open>
  C3 at \<^verbatim>\<open>Rec("name", "Alice", "age", 30, "name", b)\<close>: the key \<open>name\<close> occurs twice and
  is passed through twice.
\<close>

theorem Rec_closed_record_witness:
  "specialConstraints printEx 1000 ''Rec'' 6
     [(QuintStr ''name'', StrT), (QuintStr ''Alice'', StrT), (QuintStr ''age'', StrT),
      (QuintInt 30, IntT), (QuintStr ''name'', StrT), (QuintOther KBool 1, BoolT)]
     (QuintVarType ''X'')
   = Return (Inr [Eq (RecT (RowFields
                        [RowField ''name'' StrT, RowField ''age'' IntT, RowField ''name'' BoolT]
                        RowEmpty))
                    (VarT ''X'') 6])"
  using Rec_closed_record
    [of printEx 1000 6 "[(''name'', StrT, QuintStr ''Alice'', StrT), (''age'', StrT, QuintInt 30, IntT),
                    (''name'', StrT, QuintOther KBool 1, BoolT)]" "QuintVarType ''X''"]
  by simp

text \<open>
  C5: a call with opcode \<^verbatim>\<open>field\<close>, the two arguments \<open>(rec, recType)\<close> and
  \<open>(fieldNameExpr, _)\<close>, and result variable \<open>X\<close>: when \<open>fieldNameExpr\<close> is the string literal
  \<open>f\<close>, the call succeeds with exactly one constraint \<open>Eq(recType, R)\<close>, where \<open>R\<close> is the open
  record row with the single field \<open>(f, X)\<close> and the tail variable named \<open>tail_\<close> followed by
  the name of \<open>X\<close>; when \<open>fieldNameExpr\<close> is not a string literal, the call fails with a
  structured error whose message names the kind and the printed form of that expression.
\<close>

theorem field_open_record_or_error:
  "specialConstraints ets heapLimit ''field'' nid [(rec, recType), (QuintStr f, fieldNameType)]
       resultTypeVar
     = Return (Inr [Eq recType
                      (RecT (RowFields [RowField f (VarT (name resultTypeVar))]
                               (RowVar (''tail_'' @ name resultTypeVar)))) nid])
   \<and> (kind fieldNameExpr \<noteq> ''str'' \<longrightarrow>
        specialConstraints ets heapLimit ''field'' nid [(rec, recType), (fieldNameExpr, exprType)]
          resultTypeVar
        = Return (Inl (OneError (ErrorTree
            (''Generating record constraints for '' @ ets rec @ '','' @ ets fieldNameExpr)
            (Some (''Record field name must be a string expression but is ''
                     @ kind fieldNameExpr @ '': '' @ ets fieldNameExpr))
            []))))"
  by (cases fieldNameExpr)
     (simp_all add: specialConstraints_def fieldConstraints_def varType_def fieldNameError_def
        buildErrorLeaf_def errorLocation_def)

theorem field_open_record_or_error_witness:
  "specialConstraints printEx 1000 ''field'' 3 [(QuintOther KName 0, VarT ''r''), (QuintStr ''x'', StrT)]
       (QuintVarType ''X'')
     = Return (Inr [Eq (VarT ''r'')
                      (RecT (RowFields [RowField ''x'' (VarT ''X'')] (RowVar ''tail_X''))) 3])
   \<and> kind (QuintInt 1) \<noteq> ''str''
   \<and> specialConstraints printEx 1000 ''field'' 3 [(QuintOther KName 0, VarT ''r''), (QuintInt 1, IntT)]
        (QuintVarType ''X'')
      = Return (Inl (OneError (ErrorTree
          ''Generating record constraints for name_0,1''
          (Some ''Record field name must be a string expression but is int: 1'')
          [])))"
  using field_open_record_or_error
    [of printEx 1000 3 "QuintOther KName 0" "VarT ''r''" "''x''" StrT "QuintVarType ''X''"
        "QuintInt 1" IntT]
  by (simp add: bigintToString_def numberToString.simps digitChar_def)

text \<open>
  C7: a call with opcode \<^verbatim>\<open>fieldNames\<close>, the one argument \<open>(rec, recType)\<close> and result variable
  \<open>X\<close> succeeds with exactly the two constraints \<open>Eq(X, Set(str))\<close> and
  \<open>Eq(recType, Record(Var(rec_X)))\<close>, the row of the record being the single row variable
  named \<open>rec_\<close> followed by the name of \<open>X\<close>, with no known field; the call does not fail.
\<close>

theorem fieldNames_two_constraints:
  "specialConstraints ets heapLimit ''fieldNames'' nid [(rec, recType)] resultTypeVar
   = Return (Inr [Eq (VarT (name resultTypeVar)) (SetT StrT) nid,
                  Eq recType (RecT (RowVar (''rec_'' @ name resultTypeVar))) nid])"
  by (simp add: specialConstraints_def fieldNamesConstraints_def varType_def)


text \<open>
  C7 at \<^verbatim>\<open>fieldNames(r)\<close> with result variable \<open>X\<close>.
\<close>

theorem fieldNames_two_constraints_witness:
  "specialConstraints printEx 1000 ''fieldNames'' 6 [(QuintOther KName 0, VarT ''r'')]
     (QuintVarType ''X'')
   = Return (Inr [Eq (VarT ''X'') (SetT StrT) 6,
                  Eq (VarT ''r'') (RecT (RowVar ''rec_X'')) 6])"
  using fieldNames_two_constraints
    [of printEx 1000 6 "QuintOther KName 0" "VarT ''r''" "QuintVarType ''X''"]
  by simp

text \<open>
  C8: for every opcode other than the six special ones (\<^verbatim>\<open>Rec\<close>, \<^verbatim>\<open>field\<close>, \<^verbatim>\<open>fieldNames\<close>,
  \<^verbatim>\<open>with\<close>, \<^verbatim>\<open>Tup\<close>, \<^verbatim>\<open>item\<close>), and for every argument list and result variable,
  \<^verbatim>\<open>specialConstraints\<close> returns success with an empty constraint list and never an error.
\<close>

theorem other_opcode_no_constraints:
  assumes "opcode \<notin> {''Rec'', ''field'', ''fieldNames'', ''with'', ''Tup'', ''item''}"
  shows "specialConstraints ets heapLimit opcode nid args resultTypeVar = Return (Inr [])"
  using assms by (simp add: specialConstraints_def)

theorem other_opcode_no_constraints_witness:
  "''iadd'' \<notin> {''Rec'', ''field'', ''fieldNames'', ''with'', ''Tup'', ''item''}
   \<and> specialConstraints printEx 1000 ''iadd'' 7 [(QuintOther KName 0, IntT)] (QuintVarType ''t0'')
       = Return (Inr [])"
  using other_opcode_no_constraints
    [of "''iadd''" printEx 1000 7 "[(QuintOther KName 0, IntT)]" "QuintVarType ''t0''"]
  by simp

text \<open>
  The rule of \<^verbatim>\<open>item\<close> where it does what its comment says. With two arguments and an integer
  literal \<open>N \<ge> 1\<close> whose \<open>N - 1\<close> placeholders are within the memory of the runtime and leave
  room for the pushed field, the call succeeds with exactly one constraint
  \<open>Eq(tupType, T)\<close>: the fields of \<open>T\<close> are the positions \<open>0\<close> to \<open>N - 2\<close>, each typed with the
  variable named \<open>tup_\<close>, the name of \<open>X\<close>, \<open>_\<close> and the position, then the position \<open>N - 1\<close>
  typed with \<open>X\<close>, and the tail is the variable named \<open>tail_\<close> followed by the name of \<open>X\<close>.
\<close>

lemma item_open_tuple_within_memory:
  assumes "1 \<le> N" and "N - 1 \<le> int heapLimit" and "N \<le> 4294967295"
  shows "specialConstraints ets heapLimit ''item'' nid
           [(tup, tupType), (QuintInt N, indexType)] resultTypeVar
      = Return (Inr [Eq tupType
                      (TupT (RowFields
                         (map (\<lambda>i. RowField (numberToString i)
                                 (VarT (''tup_'' @ name resultTypeVar @ ''_'' @ numberToString i)))
                              [0..<nat (N - 1)]
                          @ [RowField (numberToString (nat (N - 1))) (VarT (name resultTypeVar))])
                         (RowVar (''tail_'' @ name resultTypeVar)))) nid])"
proof (cases "N = 1")
  case True
  then show ?thesis
    by (simp add: specialConstraints_def itemConstraints_def itemFields_def
          times_no_placeholder push_def MAX_ARRAY_LENGTH_def bigintToString_def varType_def)
next
  case False
  with assms(1) have one: "1 \<le> N - 1" by simp
  from assms(3) have below: "N - 1 < int MAX_ARRAY_LENGTH"
    by (simp add: MAX_ARRAY_LENGTH_def)
  from one assms(2) below have t: "times heapLimit (N - 1) = Return [0..<nat (N - 1)]"
    by (rule times_within_memory)
  from below one have l: "nat (N - 1) < MAX_ARRAY_LENGTH"
    by simp
  from one have s: "bigintToString (N - 1) = numberToString (nat (N - 1))"
    by (simp add: bigintToString_def)
  show ?thesis
    using l
    by (simp add: specialConstraints_def itemConstraints_def itemFields_def t s push_def
          varType_def placeholderField_def)
qed

text \<open>
  With two arguments and an index that is not an integer literal, the call fails with a
  structured error whose message names the kind and the printed form of that expression.
\<close>

lemma item_index_not_int_literal:
  assumes "kind indexExpr \<noteq> ''int''"
  shows "specialConstraints ets heapLimit ''item'' nid [(tup, tupType), (indexExpr, exprType)]
          resultTypeVar
        = Return (Inl (OneError (ErrorTree
            (''Generating record constraints for '' @ ets tup @ '','' @ ets indexExpr)
            (Some (''Tup field index must be an int expression but is ''
                     @ kind indexExpr @ '': '' @ ets indexExpr))
            [])))"
  using assms
  by (cases indexExpr)
     (simp_all add: specialConstraints_def itemConstraints_def itemIndexError_def
        buildErrorLeaf_def errorLocation_def)

text \<open>
  C2 says that a call with opcode \<^verbatim>\<open>item\<close>, two arguments and an integer literal \<open>N \<ge> 1\<close>
  succeeds with one constraint on an open tuple row whose fields are the positions \<open>0\<close> to
  \<open>N - 2\<close>, typed with placeholder variables, and the position \<open>N - 1\<close>, typed with the result
  variable; the comment of the source says the same (a tuple with item access of \<open>N\<close> should
  have at least \<open>N\<close> fields, the previous ones filled with type variables). The code does
  not do it at \<open>N = 9007199254740993\<close>: \<open>N - 1\<close> is above \<^verbatim>\<open>MAX_SAFE_INTEGER\<close>, \<^verbatim>\<open>times\<close>
  returns no placeholder whatever the memory of the runtime, and the call succeeds with a
  row of the single field \<open>9007199254740992\<close>, which is not the row of the claim.
\<close>

theorem item_huge_index_drops_placeholders:
  "specialConstraints printEx heapLimit ''item'' 4
     [(QuintOther KName 0, VarT ''t''), (QuintInt 9007199254740993, IntT)] (QuintVarType ''X'')
   = Return (Inr [Eq (VarT ''t'')
       (TupT (RowFields [RowField ''9007199254740992'' (VarT ''X'')] (RowVar ''tail_X''))) 4])
   \<and> specialConstraints printEx heapLimit ''item'' 4
     [(QuintOther KName 0, VarT ''t''), (QuintInt 9007199254740993, IntT)] (QuintVarType ''X'')
   \<noteq> Return (Inr [Eq (VarT ''t'')
       (TupT (RowFields
          (map (placeholderField (QuintVarType ''X'')) [0..<9007199254740992]
           @ [RowField ''9007199254740992'' (VarT ''X'')])
          (RowVar ''tail_X''))) 4])"
  by (simp add: specialConstraints_def itemConstraints_def itemFields_def times_def push_def
        MAX_SAFE_INTEGER_def MAX_ARRAY_LENGTH_def bigintToString_def varType_def
        numberToString.simps digitChar_def)

text \<open>
  C4, as the code has it: a call with opcode \<^verbatim>\<open>Rec\<close> and an even-length argument list of
  alternating key and value arguments in which at least one key is not a string literal
  fails: no constraint is returned, and the returned error is the list of the validation
  errors of all keys that are not string literals, in argument order, so that the first
  entry is the error of the first failing key. Each entry names the kind and the printed
  form of its key and the printed forms of all arguments.
\<close>

theorem Rec_non_literal_keys_all_reported:
  assumes "args = concat (map (\<lambda>(k, kt, v, vt). [(k, kt), (v, vt)]) kvs)"
    and "\<exists>q\<in>set kvs. kind (fst q) \<noteq> ''str''"
  shows "specialConstraints ets heapLimit ''Rec'' nid args resultTypeVar
   = Return (Inl (ManyErrors
       (map (\<lambda>k. ErrorTree
                 (''Generating record constraints for '' @ joinComma (map (\<lambda>a. ets (fst a)) args))
                 (Some (''Record field name must be a name expression but is ''
                          @ kind k @ '': '' @ ets k))
                 [])
            (filter (\<lambda>k. kind k \<noteq> ''str'') (map fst kvs)))))"
proof -
  let ?g = "\<lambda>(k, kt, v, vt). case k of QuintStr s \<Rightarrow> Inr (RowField s vt)
             | QuintInt i \<Rightarrow> Inl (recordKeyError ets args k)
             | QuintOther c r \<Rightarrow> Inl (recordKeyError ets args k)"
  have fields: "mapThrowing (recordField ets args) (chunk args 2) = Return (map ?g kvs)"
    unfolding assms(1) by (rule recordFields_even)
  from assms(2) have "filter (\<lambda>k. kind k \<noteq> ''str'') (map fst kvs) \<noteq> []"
    by (auto simp add: filter_empty_conv)
  then have some: "filter isl (map ?g kvs) \<noteq> []"
    using recordErrors_filter [of ets args kvs] by (metis (no_types, lifting) list.map_disc_iff)
  have "mergeInMany (map ?g kvs)
        = Inl (map (recordKeyError ets args) (filter (\<lambda>k. kind k \<noteq> ''str'') (map fst kvs)))"
    using some by (simp only: mergeInMany_eq recordErrors_filter if_False)
  then show ?thesis
    unfolding specialConstraints_def recordConstructorConstraints_def fields
    by (simp add: recordKeyError_def buildErrorLeaf_def errorLocation_def)
qed

text \<open>
  C4 at \<^verbatim>\<open>Rec(n, 1, "a", 2, 3, 4)\<close>, where the first and the third key are not string
  literals.
\<close>

theorem Rec_non_literal_keys_all_reported_witness:
  "[(QuintOther KName 0, StrT), (QuintInt 1, IntT), (QuintStr ''a'', StrT), (QuintInt 2, IntT),
    (QuintInt 3, IntT), (QuintInt 4, IntT)]
   = concat (map (\<lambda>(k, kt, v, vt). [(k, kt), (v, vt)])
       [(QuintOther KName 0, StrT, QuintInt 1, IntT), (QuintStr ''a'', StrT, QuintInt 2, IntT),
        (QuintInt 3, IntT, QuintInt 4, IntT)])
   \<and> (\<exists>q\<in>set [(QuintOther KName 0, StrT, QuintInt 1, IntT),
                (QuintStr ''a'', StrT, QuintInt 2, IntT),
                (QuintInt 3, IntT, QuintInt 4, IntT)]. kind (fst q) \<noteq> ''str'')
   \<and> specialConstraints printEx 1000 ''Rec'' 1
        [(QuintOther KName 0, StrT), (QuintInt 1, IntT), (QuintStr ''a'', StrT), (QuintInt 2, IntT),
         (QuintInt 3, IntT), (QuintInt 4, IntT)] (QuintVarType ''X'')
      = Return (Inl (ManyErrors
          [ErrorTree ''Generating record constraints for name_0,1,\"a\",2,3,4''
             (Some ''Record field name must be a name expression but is name: name_0'') [],
           ErrorTree ''Generating record constraints for name_0,1,\"a\",2,3,4''
             (Some ''Record field name must be a name expression but is int: 3'') []]))"
  using Rec_non_literal_keys_all_reported
    [of "[(QuintOther KName 0, StrT), (QuintInt 1, IntT), (QuintStr ''a'', StrT),
          (QuintInt 2, IntT), (QuintInt 3, IntT), (QuintInt 4, IntT)]"
        "[(QuintOther KName 0, StrT, QuintInt 1, IntT), (QuintStr ''a'', StrT, QuintInt 2, IntT),
          (QuintInt 3, IntT, QuintInt 4, IntT)]"
        printEx 1000 1 "QuintVarType ''X''"]
  by (simp add: bigintToString_def numberToString.simps digitChar_def)

text \<open>
  C4 as stated fails at \<^verbatim>\<open>Rec(n, 1, 2, 3)\<close>: the returned error is not the single
  validation error of the first failing key \<^verbatim>\<open>n\<close>, it is the array of the errors of both
  keys.
\<close>

theorem Rec_two_bad_keys_counterexample:
  "specialConstraints printEx 1000 ''Rec'' 1
     [(QuintOther KName 0, StrT), (QuintInt 1, IntT), (QuintInt 2, IntT), (QuintInt 3, IntT)]
     (QuintVarType ''X'')
   = Return (Inl (ManyErrors
       [ErrorTree ''Generating record constraints for name_0,1,2,3''
          (Some ''Record field name must be a name expression but is name: name_0'') [],
        ErrorTree ''Generating record constraints for name_0,1,2,3''
          (Some ''Record field name must be a name expression but is int: 2'') []]))
   \<and> specialConstraints printEx 1000 ''Rec'' 1
     [(QuintOther KName 0, StrT), (QuintInt 1, IntT), (QuintInt 2, IntT), (QuintInt 3, IntT)]
     (QuintVarType ''X'')
   \<noteq> Return (Inl (OneError
       (ErrorTree ''Generating record constraints for name_0,1,2,3''
          (Some ''Record field name must be a name expression but is name: name_0'') [])))"
  by (simp add: specialConstraints_def recordConstructorConstraints_def
        chunk_two_Cons chunk_two_Nil recordField_def mergeInMany_def recordKeyError_def
        buildErrorLeaf_def errorLocation_def bigintToString_def numberToString.simps
        digitChar_def)

text \<open>
  C6: a call with opcode \<^verbatim>\<open>Tup\<close> and any argument list of length \<open>n\<close> succeeds with exactly
  one constraint \<open>Eq(T, X)\<close>, where \<open>T\<close> is the closed tuple row (tail empty) whose fields are
  named by the decimal positions \<open>0\<close> to \<open>n - 1\<close> and typed with the types of the arguments
  in argument order. No argument is inspected and the call does not fail.
\<close>

theorem Tup_closed_tuple:
  "specialConstraints ets heapLimit ''Tup'' nid args resultTypeVar
   = Return (Inr [Eq (TupT (RowFields
                        (map (\<lambda>i. RowField (numberToString i) (snd (args ! i)))
                           [0..<length args])
                        RowEmpty))
                    (VarT (name resultTypeVar)) nid])"
  by (simp add: specialConstraints_def tupleConstructorConstraints_def varType_def
        map_enumerate_nth)

text \<open>
  C6 at \<^verbatim>\<open>Tup(a, "s", 1)\<close> with the argument types \<open>int\<close>, \<open>str\<close>, \<open>bool\<close>.
\<close>

theorem Tup_closed_tuple_witness:
  "specialConstraints printEx 1000 ''Tup'' 2
     [(QuintOther KName 0, IntT), (QuintStr ''s'', StrT), (QuintInt 1, BoolT)]
     (QuintVarType ''X'')
   = Return (Inr [Eq (TupT (RowFields
                        [RowField ''0'' IntT, RowField ''1'' StrT, RowField ''2'' BoolT]
                        RowEmpty))
                    (VarT ''X'') 2])"
  using Tup_closed_tuple
    [of printEx 1000 2 "[(QuintOther KName 0, IntT), (QuintStr ''s'', StrT), (QuintInt 1, BoolT)]"
        "QuintVarType ''X''"]
  by (simp add: upt_rec numberToString.simps digitChar_def)

text \<open>
  C9, as the code has it: on every call of correct arity, \<^verbatim>\<open>specialConstraints\<close> terminates
  normally and returns a value, a structured error or a constraint list, and raises no
  exception. The arity is correct with an even number of arguments for \<^verbatim>\<open>Rec\<close>, at least two
  for \<^verbatim>\<open>field\<close> and for \<^verbatim>\<open>item\<close>, at least one for \<^verbatim>\<open>fieldNames\<close>, at least three for
  \<^verbatim>\<open>with\<close>, and with any argument list for \<^verbatim>\<open>Tup\<close> and for every other opcode. For \<^verbatim>\<open>item\<close>
  with an integer literal \<open>N\<close> this is said of the calls whose \<open>N - 1\<close> placeholders are
  within the memory of the runtime; nothing is said of the others.
\<close>

theorem returns_on_well_formed_call:
  assumes "wellFormedCall heapLimit opcode args"
  shows "\<exists>r. specialConstraints ets heapLimit opcode nid args resultTypeVar = Return r"
proof -
  consider (Rec) "opcode = ''Rec''" | (field) "opcode = ''field''"
    | (fieldNames) "opcode = ''fieldNames''" | (withOp) "opcode = ''with''"
    | (Tup) "opcode = ''Tup''" | (item) "opcode = ''item''"
    | (other) "opcode \<notin> {''Rec'', ''field'', ''fieldNames'', ''with'', ''Tup'', ''item''}"
    by auto
  then show ?thesis
  proof cases
    case Rec
    with assms have "even (length args)" by (simp add: wellFormedCall_def)
    then show ?thesis using Rec Rec_returns_iff [of ets nid args resultTypeVar]
      by (simp add: specialConstraints_def)
  next
    case field
    with assms have "2 \<le> length args" by (simp add: wellFormedCall_def)
    then show ?thesis using field field_returns_iff [of ets nid args resultTypeVar]
      by (simp add: specialConstraints_def)
  next
    case fieldNames
    with assms have "1 \<le> length args" by (simp add: wellFormedCall_def)
    then show ?thesis using fieldNames fieldNames_returns_iff [of ets nid args resultTypeVar]
      by (simp add: specialConstraints_def)
  next
    case withOp
    with assms have "3 \<le> length args" by (simp add: wellFormedCall_def)
    then show ?thesis using withOp with_returns_iff [of ets nid args resultTypeVar]
      by (simp add: specialConstraints_def)
  next
    case Tup
    then show ?thesis
      by (simp add: specialConstraints_def tupleConstructorConstraints_def)
  next
    case item
    with assms have "case args of
             a # (itemName, itemNameType) # rest \<Rightarrow> placeholdersFit heapLimit itemName
           | [a] \<Rightarrow> False
           | [] \<Rightarrow> False"
      by (simp add: wellFormedCall_def)
    then have "\<exists>r. itemConstraints ets heapLimit nid args resultTypeVar = Return r"
      by (rule item_returns)
    then show ?thesis using item by (simp add: specialConstraints_def)
  next
    case other
    then show ?thesis by (simp add: specialConstraints_def)
  qed
qed

text \<open>
  C9 at \<^verbatim>\<open>item(t, 3)\<close>, with a runtime that has the memory for a thousand placeholders.
\<close>

theorem returns_on_well_formed_call_witness:
  "wellFormedCall 1000 ''item'' [(QuintOther KName 0, VarT ''t''), (QuintInt 3, IntT)]
   \<and> (\<exists>r. specialConstraints printEx 1000 ''item'' 1
             [(QuintOther KName 0, VarT ''t''), (QuintInt 3, IntT)] (QuintVarType ''X'')
           = Return r)"
proof -
  have wf: "wellFormedCall 1000 ''item'' [(QuintOther KName 0, VarT ''t''), (QuintInt 3, IntT)]"
    by (simp add: wellFormedCall_def placeholdersFit_def MAX_ARRAY_LENGTH_def)
  show ?thesis
    using wf returns_on_well_formed_call [OF wf, of printEx 1 "QuintVarType ''X''"]
    by simp
qed

text \<open>
  C9 as stated, for every argument list, fails on the empty argument list of \<^verbatim>\<open>field\<close> and
  on an argument list of odd length of \<^verbatim>\<open>Rec\<close>: destructuring \<^verbatim>\<open>undefined\<close> throws a
  \<^verbatim>\<open>TypeError\<close>.
\<close>

theorem throws_on_short_argument_list_counterexample:
  "specialConstraints printEx 1000 ''field'' 1 [] (QuintVarType ''X'') = Throw TypeError
   \<and> specialConstraints printEx 1000 ''Rec'' 1
        [(QuintStr ''a'', StrT), (QuintInt 1, IntT), (QuintStr ''b'', StrT)] (QuintVarType ''X'')
      = Throw TypeError"
  by (simp add: specialConstraints_def fieldConstraints_def recordConstructorConstraints_def
        chunk_two_Cons chunk_two_single recordField_def)

text \<open>
  C10: a call with opcode \<^verbatim>\<open>item\<close>, two arguments and an index that is an integer literal
  \<open>N \<le> 0\<close> does not fail: it succeeds with exactly one constraint \<open>Eq(tupType, T)\<close>, where
  \<open>T\<close> is the open tuple row with no placeholder field and the single field named by the
  decimal string of \<open>N - 1\<close>, a minus sign followed by the digits of \<open>1 - N\<close>, typed with the
  result variable, and with the tail variable named \<open>tail_\<close> followed by the name of the
  result variable.
\<close>

theorem item_nonpositive_index:
  assumes "N \<le> 0"
  shows "specialConstraints ets heapLimit ''item'' nid [(tup, tupType), (QuintInt N, indexType)]
           resultTypeVar
   = Return (Inr [Eq tupType
                    (TupT (RowFields
                       [RowField (CHR ''-'' # numberToString (nat (1 - N)))
                          (VarT (name resultTypeVar))]
                       (RowVar (''tail_'' @ name resultTypeVar)))) nid])"
  using assms
  by (simp add: specialConstraints_def itemConstraints_def itemFields_def times_def push_def
        MAX_ARRAY_LENGTH_def bigintToString_def varType_def)

text \<open>
  C10 at \<^verbatim>\<open>item(t, 0)\<close>: the single field is named \<open>-1\<close>.
\<close>

theorem item_nonpositive_index_witness:
  "(0::int) \<le> 0 \<and>
   specialConstraints printEx 1000 ''item'' 4 [(QuintOther KName 0, VarT ''t''), (QuintInt 0, IntT)]
     (QuintVarType ''X'')
   = Return (Inr [Eq (VarT ''t'')
                    (TupT (RowFields [RowField ''-1'' (VarT ''X'')] (RowVar ''tail_X''))) 4])"
  using item_nonpositive_index
    [of 0 printEx 1000 4 "QuintOther KName 0" "VarT ''t''" IntT "QuintVarType ''X''"]
  by (simp add: numberToString.simps digitChar_def)

end
